theory Spec2Isabelle
  imports Complex_Main "HOL-Library.Sublist" "HOL-Library.Multiset"
begin

section \<open>Data model\<close>

text \<open>
  The viewers work on JavaScript numbers. They are modelled as \<^typ>\<open>real\<close>: every claim
  below is about comparisons, products and a square root of coordinates, and is read over
  the reals. Field names carry a prefix where two interfaces of the source share a name
  (\<open>x\<close>, \<open>y\<close>, \<open>radius\<close>) or where the name is a HOL constant (\<open>id\<close>).
\<close>

text \<open>\<open>interface Annotation\<close> (AnnotatableDicomViewer); the field \<open>type\<close> is always
  the literal \<open>"point"\<close> and is left out.\<close>

record Annotation =
  ann_id :: string
  ann_x :: real
  ann_y :: real
  comment :: string
  color :: string

text \<open>\<open>interface HeatmapRegion\<close> (DicomViewerWithOverlay); \<open>label\<close> and
  \<open>explanation\<close> are optional in the source.\<close>

record HeatmapRegion =
  reg_x :: real
  reg_y :: real
  radius :: real
  intensity :: real
  label :: "string option"
  explanation :: "string option"

text \<open>\<open>interface ConsensusRegion\<close> (CombinedDicomViewer).\<close>

record ConsensusRegion =
  con_x :: real
  con_y :: real
  con_radius :: real
  clinicianAnnotation :: Annotation
  aiRegion :: HeatmapRegion

section \<open>Consensus detector (CombinedDicomViewer, \<open>detectConsensus\<close>)\<close>

text \<open>The distance computed in the inner loop body:
  \<open>dx = px - region.x; dy = py - region.y; Math.sqrt(dx * dx + dy * dy)\<close>.\<close>

definition distance :: "real \<Rightarrow> real \<Rightarrow> HeatmapRegion \<Rightarrow> real" where
  "distance px py region =
     (let dx = px - reg_x region; dy = py - reg_y region
      in sqrt (dx * dx + dy * dy))"

text \<open>One pass of the inner \<open>forEach\<close> body: push a consensus region when the
  annotation lies inside the AI region.\<close>

definition consensus_step ::
  "Annotation \<Rightarrow> ConsensusRegion list \<Rightarrow> HeatmapRegion \<Rightarrow> ConsensusRegion list" where
  "consensus_step annotation detected region =
     (if distance (ann_x annotation) (ann_y annotation) region < radius region
      then detected @
        [\<lparr>con_x = ann_x annotation, con_y = ann_y annotation,
          con_radius = radius region * 0.8,
          clinicianAnnotation = annotation, aiRegion = region\<rparr>]
      else detected)"

text \<open>The two nested \<open>forEach\<close> loops over \<open>clinicianAnnotations\<close> and
  \<open>aiRegions\<close>, pushing onto \<open>detected\<close>, which starts empty.\<close>

definition detectConsensus ::
  "Annotation list \<Rightarrow> HeatmapRegion list \<Rightarrow> ConsensusRegion list" where
  "detectConsensus clinicianAnnotations aiRegions =
     foldl (\<lambda>detected annotation. foldl (consensus_step annotation) detected aiRegions)
       [] clinicianAnnotations"

section \<open>Hover pick (DicomViewerWithOverlay, \<open>handleCanvasMouseMove\<close>)\<close>



section \<open>Deleting an annotation (AnnotatableDicomViewer, \<open>handleDeleteAnnotation\<close>)\<close>

text \<open>\<open>annotations.filter(a => a.id !== id)\<close>; both copies of the viewer compute the
  same list, one hands it to \<open>onAnnotationsChange\<close> only, the other also stores it.\<close>

definition handleDeleteAnnotation :: "string \<Rightarrow> Annotation list \<Rightarrow> Annotation list" where
  "handleDeleteAnnotation i annotations = filter (\<lambda>a. ann_id a \<noteq> i) annotations"

section \<open>Region synthesizer (Demo, \<open>generateRegionsFromAIResponse\<close>)\<close>

text \<open>
  The repository holds two copies of the Demo component, both in
  \<open>src/unnamed/part_000\<close>, each with its own \<open>generateRegionsFromAIResponse\<close>. The
  first (lines 169-227) reads the template table \<open>PATHOLOGY_REGIONS\<close>; the second
  (lines 940-982) has no such table. \<open>PATHOLOGY_INFO\<close> and the extraction of score,
  model identifier and pathology key are the same text in both.
\<close>

record PathologyInfo =
  fullName :: string
  description :: string
  secondaryFindings :: "string list option"

record RegionTemplate =
  tpl_x :: real
  tpl_y :: real
  tpl_radius :: real
  tpl_description :: string

text \<open>The part of the inference response the synthesizer reads:
  \<open>aiResponse.model_id\<close> and \<open>aiResponse.results?.response\<close> with its \<open>score\<close> and
  \<open>model\<close>. \<open>None\<close> is a missing field (\<open>undefined\<close>).\<close>

record InferenceResult =
  score :: "real option"
  model :: "string option"

record AIResponse =
  model_id :: "string option"
  results_response :: "InferenceResult option"

datatype js_error = TypeError

text \<open>Reading \<open>table[key]\<close> on an object literal: an own entry, a member inherited from
  \<open>Object.prototype\<close>, or \<open>undefined\<close>. The keys read here are lower-case words over
  \<open>a-z\<close> and \<open>_\<close>; of the members of \<open>Object.prototype\<close> only \<open>constructor\<close> and
  \<open>__proto__\<close> are spelled that way. Both are truthy, have no \<open>fullName\<close>,
  \<open>description\<close> or \<open>secondaryFindings\<close>, have a \<open>length\<close> other than \<open>0\<close> and no
  element \<open>0\<close>.\<close>

datatype 'a js_property = Own 'a | Inherited | Undefined

definition prototype_keys :: "string list" where
  "prototype_keys = [''constructor'', ''__proto__'']"

definition lookup :: "(string \<times> 'a) list \<Rightarrow> string \<Rightarrow> 'a js_property" where
  "lookup table key =
     (case map_of table key of
        Some v \<Rightarrow> Own v
      | None \<Rightarrow> if key \<in> set prototype_keys then Inherited else Undefined)"

text \<open>\<open>a || b\<close> on two such reads.\<close>

fun or_else :: "'a js_property \<Rightarrow> 'a js_property \<Rightarrow> 'a js_property" where
  "or_else Undefined b = b"
| "or_else a b = a"

text \<open>\<open>info.field\<close>: \<open>undefined\<close> on an inherited member. (No read below is made on
  \<open>Undefined\<close>: the right operand of each \<open>||\<close> is an own entry.)\<close>

fun field :: "('a \<Rightarrow> 'b) \<Rightarrow> 'a js_property \<Rightarrow> 'b option" where
  "field f (Own v) = Some (f v)"
| "field f _ = None"

definition PATHOLOGY_INFO :: "(string \<times> PathologyInfo) list" where
  "PATHOLOGY_INFO =
  [
   (''atelectasis'',
    \<lparr>fullName = ''Atelectasis'',
     description =
       ''Collapse or closure of lung tissue detected. This finding shows characteristic opacity consistent with atelectasis, often caused by airway obstruction, compression, or post-surgical changes.'',
     secondaryFindings = Some [''Adjacent tissue changes observed. May indicate volume loss or compensatory hyperinflation in neighboring lung segments.'',
       ''Mild mediastinal shift noted, consistent with volume loss in affected region.'']\<rparr>),
   (''pneumothorax'',
    \<lparr>fullName = ''Pneumothorax'',
     description =
       ''Air accumulation detected in pleural space. Visible absence of lung markings with potential visceral pleural line, indicating separation of lung from chest wall.'',
     secondaryFindings = Some [''Lung edge visualization suggests partial lung collapse.'',
       ''Possible tension signs: mediastinal shift or diaphragm depression may be present.'']\<rparr>),
   (''cardiomegaly'',
    \<lparr>fullName = ''Cardiomegaly'',
     description =
       ''Enlarged cardiac silhouette detected. Cardiothoracic ratio appears increased, suggesting possible cardiac chamber enlargement or pericardial effusion.'',
     secondaryFindings = Some [''Vascular congestion patterns may indicate associated heart failure.'',
       ''Pulmonary vascular redistribution suggestive of elevated pulmonary venous pressure.'']\<rparr>),
   (''lung_opacity'',
    \<lparr>fullName = ''Lung Opacity'',
     description =
       ''Abnormal opacity detected in lung parenchyma. This finding may represent consolidation, infiltrate, mass, or other pathological process requiring clinical correlation.'',
     secondaryFindings = Some [''Air bronchograms may be present, suggesting alveolar filling process.'',
       ''Pattern suggests possible infectious, inflammatory, or neoplastic etiology.'']\<rparr>),
   (''pleural_effusion'',
    \<lparr>fullName = ''Pleural Effusion'',
     description =
       ''Fluid accumulation detected in pleural space. Characteristic blunting of costophrenic angle or meniscus sign indicates pleural fluid collection.'',
     secondaryFindings = Some [''Compressive atelectasis may be present in adjacent lung tissue.'',
       ''Layering pattern suggests free-flowing pleural fluid.'']\<rparr>),
   (''consolidation'',
    \<lparr>fullName = ''Consolidation'',
     description =
       ''Dense airspace opacity detected consistent with alveolar consolidation. Pattern suggests filling of alveolar spaces with fluid, pus, blood, or cells.'',
     secondaryFindings = Some [''Air bronchograms visible within consolidated region.'',
       ''Lobar or segmental distribution pattern noted.'']\<rparr>),
   (''infiltration'',
    \<lparr>fullName = ''Infiltration'',
     description =
       ''Pulmonary infiltrate detected showing increased interstitial or alveolar markings. Pattern may represent infection, inflammation, or other pathological process.'',
     secondaryFindings = Some [''Bilateral distribution suggests diffuse process.'',
       ''Reticular or nodular pattern indicates interstitial involvement.'']\<rparr>),
   (''pleural_thickening'',
    \<lparr>fullName = ''Pleural Thickening'',
     description =
       ''Abnormal pleural thickening detected. Findings consistent with chronic pleural changes, possibly from prior inflammation, infection, or asbestos exposure.'',
     secondaryFindings = Some [''Localized pleural irregularity noted.'',
       ''May represent sequelae of prior empyema or hemothorax.'']\<rparr>),
   (''aortic_enlargement'',
    \<lparr>fullName = ''Aortic Enlargement'',
     description =
       ''Widened aortic contour detected. Finding suggests possible aortic aneurysm, atherosclerotic changes, or other vascular abnormality requiring further evaluation.'',
     secondaryFindings = Some [''Aortic calcification may be present.'',
       ''Mediastinal widening consistent with vascular enlargement.'']\<rparr>),
   (''calcification'',
    \<lparr>fullName = ''Calcification'',
     description =
       ''Calcified density detected within lung parenchyma or associated structures. May represent granuloma from prior infection, healed tuberculosis, or other benign processes.'',
     secondaryFindings = Some [''Multiple calcified nodules suggest prior granulomatous disease.'',
       ''Pattern consistent with old healed infection.'']\<rparr>),
   (''pulmonary_fibrosis'',
    \<lparr>fullName = ''Pulmonary Fibrosis'',
     description =
       ''Interstitial changes consistent with pulmonary fibrosis detected. Reticular pattern and volume loss suggest chronic scarring of lung tissue.'',
     secondaryFindings = Some [''Honeycombing pattern may indicate advanced fibrotic changes.'',
       ''Bilateral lower lobe predominance noted, typical of usual interstitial pneumonia pattern.'']\<rparr>),
   (''normal'',
    \<lparr>fullName = ''Normal'',
     description =
       ''No significant abnormalities detected. Lung fields appear clear with normal cardiac silhouette, mediastinal contours, and bony structures.'',
     secondaryFindings = Some []\<rparr>)]"

definition PATHOLOGY_REGIONS :: "(string \<times> RegionTemplate list) list" where
  "PATHOLOGY_REGIONS =
  [
   (''atelectasis'',
    [\<lparr>tpl_x = 0.30, tpl_y = 0.35, tpl_radius = 0.18, tpl_description = ''Left upper/mid lung zone''\<rparr>,
     \<lparr>tpl_x = 0.70, tpl_y = 0.35, tpl_radius = 0.18, tpl_description = ''Right upper/mid lung zone''\<rparr>]),
   (''pneumothorax'',
    [\<lparr>tpl_x = 0.25, tpl_y = 0.25, tpl_radius = 0.15, tpl_description = ''Left apical region''\<rparr>,
     \<lparr>tpl_x = 0.75, tpl_y = 0.25, tpl_radius = 0.15, tpl_description = ''Right apical region''\<rparr>]),
   (''cardiomegaly'',
    [\<lparr>tpl_x = 0.50, tpl_y = 0.60, tpl_radius = 0.28, tpl_description = ''Cardiac silhouette enlargement''\<rparr>]),
   (''lung_opacity'',
    [\<lparr>tpl_x = 0.35, tpl_y = 0.45, tpl_radius = 0.20, tpl_description = ''Left lung field''\<rparr>,
     \<lparr>tpl_x = 0.65, tpl_y = 0.45, tpl_radius = 0.20, tpl_description = ''Right lung field''\<rparr>]),
   (''pleural_effusion'',
    [\<lparr>tpl_x = 0.30, tpl_y = 0.72, tpl_radius = 0.18, tpl_description = ''Left costophrenic angle blunting''\<rparr>,
     \<lparr>tpl_x = 0.70, tpl_y = 0.72, tpl_radius = 0.18, tpl_description = ''Right costophrenic angle blunting''\<rparr>]),
   (''consolidation'',
    [\<lparr>tpl_x = 0.35, tpl_y = 0.52, tpl_radius = 0.18, tpl_description = ''Left lower lobe''\<rparr>,
     \<lparr>tpl_x = 0.65, tpl_y = 0.52, tpl_radius = 0.18, tpl_description = ''Right lower lobe''\<rparr>]),
   (''infiltration'',
    [\<lparr>tpl_x = 0.35, tpl_y = 0.42, tpl_radius = 0.22, tpl_description = ''Left perihilar/central region''\<rparr>,
     \<lparr>tpl_x = 0.65, tpl_y = 0.42, tpl_radius = 0.22, tpl_description = ''Right perihilar/central region''\<rparr>]),
   (''pleural_thickening'',
    [\<lparr>tpl_x = 0.18, tpl_y = 0.50, tpl_radius = 0.12, tpl_description = ''Left lateral pleural margin''\<rparr>,
     \<lparr>tpl_x = 0.82, tpl_y = 0.50, tpl_radius = 0.12, tpl_description = ''Right lateral pleural margin''\<rparr>]),
   (''aortic_enlargement'',
    [\<lparr>tpl_x = 0.45, tpl_y = 0.28, tpl_radius = 0.16, tpl_description = ''Aortic arch/knob widening''\<rparr>]),
   (''calcification'',
    [\<lparr>tpl_x = 0.50, tpl_y = 0.55, tpl_radius = 0.18, tpl_description = ''Cardiac/vascular calcification''\<rparr>]),
   (''pulmonary_fibrosis'',
    [\<lparr>tpl_x = 0.35, tpl_y = 0.58, tpl_radius = 0.20, tpl_description = ''Left lower zone reticular pattern''\<rparr>,
     \<lparr>tpl_x = 0.65, tpl_y = 0.58, tpl_radius = 0.20, tpl_description = ''Right lower zone reticular pattern''\<rparr>]),
   (''ild'',
    [\<lparr>tpl_x = 0.35, tpl_y = 0.48, tpl_radius = 0.22, tpl_description = ''Left mid/lower zone interstitial pattern''\<rparr>,
     \<lparr>tpl_x = 0.65, tpl_y = 0.48, tpl_radius = 0.22, tpl_description = ''Right mid/lower zone interstitial pattern''\<rparr>]),
   (''normal'',
    [])]"

subsection \<open>The pathology key: \<open>modelId.match(/chestradiography_([a-z_]+)/i)\<close>\<close>

text \<open>Case folding of the regular expression (flag \<open>i\<close>, no flag \<open>u\<close>) and
  \<open>toLowerCase\<close>, on the ASCII range; a character outside it never matches.\<close>

definition toUpperCase_char :: "char \<Rightarrow> char" where
  "toUpperCase_char c =
     (let n = of_char c :: nat in if 97 \<le> n \<and> n \<le> 122 then char_of (n - 32) else c)"

definition toLowerCase_char :: "char \<Rightarrow> char" where
  "toLowerCase_char c =
     (let n = of_char c :: nat in if 65 \<le> n \<and> n \<le> 90 then char_of (n + 32) else c)"

definition toLowerCase :: "string \<Rightarrow> string" where
  "toLowerCase s = map toLowerCase_char s"

text \<open>The class \<open>[a-z_]\<close> under flag \<open>i\<close>.\<close>

definition key_char :: "char \<Rightarrow> bool" where
  "key_char c =
     (let n = of_char c :: nat
      in (97 \<le> n \<and> n \<le> 122) \<or> (65 \<le> n \<and> n \<le> 90) \<or> n = 95)"

text \<open>The literal part of the pattern matched at the head of the subject; the result is
  what follows the match.\<close>

fun match_literal :: "string \<Rightarrow> string \<Rightarrow> string option" where
  "match_literal [] s = Some s"
| "match_literal (p # ps) [] = None"
| "match_literal (p # ps) (c # cs) =
     (if toUpperCase_char c = toUpperCase_char p then match_literal ps cs else None)"

text \<open>The pattern tried at one start position: the literal, then the greedy group
  \<open>([a-z_]+)\<close>, which takes every class character that follows and needs one at least.\<close>

definition match_here :: "string \<Rightarrow> string option" where
  "match_here s =
     (case match_literal ''chestradiography_'' s of
        None \<Rightarrow> None
      | Some rest \<Rightarrow>
          (let g = takeWhile key_char rest in if g = [] then None else Some g))"

text \<open>\<open>String.prototype.match\<close>: the leftmost start position at which the pattern
  matches; the result is capture group 1, \<open>None\<close> for \<open>null\<close>.\<close>

fun pathologyMatch :: "string \<Rightarrow> string option" where
  "pathologyMatch [] = match_here []"
| "pathologyMatch (c # cs) =
     (case match_here (c # cs) of
        Some g \<Rightarrow> Some g
      | None \<Rightarrow> pathologyMatch cs)"

text \<open>\<open>aiResponse.results?.response?.score || 0\<close>\<close>

definition response_score :: "AIResponse \<Rightarrow> real" where
  "response_score aiResponse =
     (case results_response aiResponse of
        None \<Rightarrow> 0
      | Some r \<Rightarrow> (case score r of None \<Rightarrow> 0 | Some s \<Rightarrow> s))"

text \<open>\<open>aiResponse.model_id || aiResponse.results?.response?.model || ""\<close>: the empty
  string is falsy.\<close>

definition response_modelId :: "AIResponse \<Rightarrow> string" where
  "response_modelId aiResponse =
     (case model_id aiResponse of
        Some m \<Rightarrow> if m \<noteq> [] then m
                  else (case results_response aiResponse of
                          None \<Rightarrow> []
                        | Some r \<Rightarrow> (case model r of None \<Rightarrow> [] | Some m' \<Rightarrow> m'))
      | None \<Rightarrow> (case results_response aiResponse of
                   None \<Rightarrow> []
                 | Some r \<Rightarrow> (case model r of None \<Rightarrow> [] | Some m' \<Rightarrow> m')))"

definition pathologyKey :: "AIResponse \<Rightarrow> string" where
  "pathologyKey aiResponse =
     (case pathologyMatch (response_modelId aiResponse) of
        Some g \<Rightarrow> toLowerCase g
      | None \<Rightarrow> ''lung_opacity'')"

text \<open>\<open>PATHOLOGY_INFO[pathologyKey] || PATHOLOGY_INFO["lung_opacity"]\<close> and the same
  read of \<open>PATHOLOGY_REGIONS\<close>.\<close>

definition pathologyInfo :: "AIResponse \<Rightarrow> PathologyInfo js_property" where
  "pathologyInfo aiResponse =
     or_else (lookup PATHOLOGY_INFO (pathologyKey aiResponse))
             (lookup PATHOLOGY_INFO ''lung_opacity'')"

definition anatomicalRegions :: "AIResponse \<Rightarrow> RegionTemplate list js_property" where
  "anatomicalRegions aiResponse =
     or_else (lookup PATHOLOGY_REGIONS (pathologyKey aiResponse))
             (lookup PATHOLOGY_REGIONS ''lung_opacity'')"

text \<open>\<open>info.secondaryFindings?.[0]\<close>: \<open>undefined\<close> when the list is missing or empty.\<close>

definition firstSecondaryFinding :: "PathologyInfo js_property \<Rightarrow> string option" where
  "firstSecondaryFinding info =
     (case field secondaryFindings info of
        Some (Some (f # fs)) \<Rightarrow> Some f
      | _ \<Rightarrow> None)"

text \<open>A string in a condition: \<open>undefined\<close> and the empty string are falsy.\<close>

fun truthy :: "string option \<Rightarrow> bool" where
  "truthy None = False"
| "truthy (Some s) = (s \<noteq> [])"

text \<open>The body of the synthesizer that uses the template table, from the threshold
  test on, for a given score, catalogue entry and template read. A template read that is
  not a list (an inherited member) has no element \<open>0\<close>, and reading \<open>primaryRegion.x\<close>
  throws.\<close>

definition synthesize ::
  "real \<Rightarrow> PathologyInfo js_property \<Rightarrow> RegionTemplate list js_property
     \<Rightarrow> js_error + HeatmapRegion list" where
  "synthesize sc info templates =
     (if sc < 0.3 then Inr []
      else case templates of
        Own regions \<Rightarrow>
          if length regions = 0 then Inr []
          else
            (let primaryRegion = regions ! 0;
                 primary =
                   \<lparr>reg_x = tpl_x primaryRegion, reg_y = tpl_y primaryRegion,
                    radius = tpl_radius primaryRegion, intensity = sc,
                    label = field fullName info,
                    explanation = field description info\<rparr>
             in if sc > 0.6 \<and> length regions > 1
                then
                  (let secondaryRegion = regions ! 1;
                       secondaryLabel =
                         (if truthy (firstSecondaryFinding info)
                          then Some ''Secondary Finding''
                          else field fullName info);
                       secondaryExplanation =
                         (if truthy (firstSecondaryFinding info)
                          then firstSecondaryFinding info
                          else Some (tpl_description secondaryRegion))
                   in Inr [primary,
                        \<lparr>reg_x = tpl_x secondaryRegion, reg_y = tpl_y secondaryRegion,
                         radius = tpl_radius secondaryRegion, intensity = sc * 0.85,
                         label = secondaryLabel,
                         explanation = secondaryExplanation\<rparr>])
                else Inr [primary])
      | _ \<Rightarrow> Inl TypeError)"

text \<open>The synthesizer of the first copy of the Demo (lines 169-227).\<close>

definition generateRegionsFromAIResponse :: "AIResponse \<Rightarrow> js_error + HeatmapRegion list" where
  "generateRegionsFromAIResponse aiResponse =
     synthesize (response_score aiResponse) (pathologyInfo aiResponse)
       (anatomicalRegions aiResponse)"

text \<open>\<open>info.secondaryFindings && info.secondaryFindings.length > 0\<close>\<close>

definition truthy_list :: "string list option option \<Rightarrow> bool" where
  "truthy_list fs = (case fs of Some (Some l) \<Rightarrow> length l > 0 | _ \<Rightarrow> False)"

text \<open>The synthesizer of the second copy of the Demo (lines 940-982): fixed
  coordinates, a secondary finding above \<open>0.7\<close> with intensity \<open>score * 0.8\<close>. It reads
  no element of a list that may be missing, and throws nowhere.\<close>

definition generateRegionsFromAIResponse2 :: "AIResponse \<Rightarrow> HeatmapRegion list" where
  "generateRegionsFromAIResponse2 aiResponse =
     (let sc = response_score aiResponse; info = pathologyInfo aiResponse
      in if sc < 0.3 then []
         else \<lparr>reg_x = 0.35, reg_y = 0.4, radius = 0.25, intensity = sc,
                label = field fullName info,
                explanation = field description info\<rparr> #
              (if sc > 0.7 \<and> truthy_list (field secondaryFindings info)
               then [\<lparr>reg_x = 0.6, reg_y = 0.55, radius = 0.2, intensity = sc * 0.8,
                       label = Some ''Secondary Finding'',
                       explanation = firstSecondaryFinding info\<rparr>]
               else []))"



section \<open>Canvas drawing\<close>

text \<open>What a renderer does to the 2D context, as the list of calls and property
  assignments it makes, in order. A colour is the string assigned to \<open>fillStyle\<close> or
  \<open>strokeStyle\<close>; for a template literal \<open>rgba(r, g, b, ${alpha})\<close> the three channels
  and the interpolated number are kept apart.\<close>

datatype css_color = Css string | Rgba nat nat nat real

text \<open>\<open>createRadialGradient(x0, y0, r0, x1, y1, r1)\<close> with the colour stops added to it.\<close>

datatype gradient =
  RadialGradient real real real real real real "(real \<times> css_color) list"

datatype paint = Color css_color | Gradient gradient

datatype canvas_text = Text string | Number nat

datatype canvas_op =
    ClearRect real real real real
  | FillStyle paint
  | StrokeStyle css_color
  | LineWidth real
  | SetLineDash "real list"
  | BeginPath
  | Arc real real real real real
  | Fill
  | Stroke
  | FillRect real real real real
  | StrokeRect real real real real
  | Font string
  | TextAlign string
  | TextBaseline string
  | FillText canvas_text real real



subsection \<open>Combined view (CombinedDicomViewer, \<open>drawOverlays\<close>)\<close>



text \<open>\<open>annotation.color || "rgba(59, 130, 246, 1)"\<close>\<close>

definition marker_color :: "Annotation \<Rightarrow> css_color" where
  "marker_color annotation =
     (if color annotation \<noteq> [] then Css (color annotation)
      else Css ''rgba(59, 130, 246, 1)'')"

text \<open>The numbered pin and the comment badge, drawn at pixel position \<open>(x, y)\<close>; the
  same statements in \<open>drawOverlays\<close> and in \<open>drawSingleAnnotation\<close>.\<close>

definition marker :: "Annotation \<Rightarrow> real \<Rightarrow> real \<Rightarrow> nat \<Rightarrow> canvas_op list" where
  "marker annotation x y annotationNumber =
     [FillStyle (Color (marker_color annotation)),
      BeginPath, Arc x y 12 0 (2 * pi), Fill,
      StrokeStyle (Css ''white''), LineWidth 3, Stroke,
      FillStyle (Color (Css ''white'')), Font ''bold 13px sans-serif'',
      TextAlign ''center'', TextBaseline ''middle'',
      FillText (Number annotationNumber) x y] @
     (if comment annotation \<noteq> [] then
        [FillStyle (Color (marker_color annotation)),
         BeginPath, Arc (x + 16) (y - 16) 8 0 (2 * pi), Fill,
         StrokeStyle (Css ''white''), LineWidth 2, Stroke,
         FillStyle (Color (Css ''white'')), Font ''bold 10px sans-serif'',
         TextAlign ''center'', TextBaseline ''middle'',
         FillText (Text ''i'') (x + 16) (y - 16)]
      else [])"


subsection \<open>Single-image AI overlay (DicomViewerWithOverlay, \<open>drawHeatmap\<close>)\<close>




subsection \<open>Annotatable viewer (AnnotatableDicomViewer, \<open>drawSingleAnnotation\<close>)\<close>

text \<open>\<open>if (!annotation.x || !annotation.y) return;\<close>: the number \<open>0\<close> is falsy.\<close>

definition drawSingleAnnotation ::
  "Annotation \<Rightarrow> real \<Rightarrow> real \<Rightarrow> nat \<Rightarrow> canvas_op list" where
  "drawSingleAnnotation annotation canvasWidth canvasHeight annotationNumber =
     (if ann_x annotation = 0 \<or> ann_y annotation = 0 then []
      else marker annotation (ann_x annotation * canvasWidth)
             (ann_y annotation * canvasHeight) annotationNumber)"

definition drawAnnotations :: "real \<Rightarrow> real \<Rightarrow> Annotation list \<Rightarrow> canvas_op list" where
  "drawAnnotations W H annotations =
     ClearRect 0 0 W H #
     concat (map (\<lambda>(index, annotation). drawSingleAnnotation annotation W H (index + 1))
               (enumerate 0 annotations))"

section \<open>Sample inputs\<close>

text \<open>Concrete annotations, regions and responses on which the theorems below are
  evaluated.\<close>

definition ann_centre :: Annotation where
  "ann_centre = \<lparr>ann_id = ''1'', ann_x = 0.5, ann_y = 0.5, comment = '''', color = ''blue''\<rparr>"

definition ann_edge :: Annotation where
  "ann_edge = \<lparr>ann_id = ''2'', ann_x = 0.5, ann_y = 0.8, comment = ''rim'', color = ''blue''\<rparr>"

definition reg_demo :: HeatmapRegion where
  "reg_demo = \<lparr>reg_x = 0.5, reg_y = 0.6, radius = 0.2, intensity = 0.9, label = Some ''A'', explanation = None\<rparr>"



definition ann_first :: Annotation where
  "ann_first = \<lparr>ann_id = ''1730570000001'', ann_x = 0.2, ann_y = 0.3, comment = ''nodule'',
                 color = ''rgba(59, 130, 246, 1)''\<rparr>"

definition ann_second :: Annotation where
  "ann_second = \<lparr>ann_id = ''1730570000002'', ann_x = 0.6, ann_y = 0.4, comment = [],
                  color = ''rgba(59, 130, 246, 1)''\<rparr>"

definition ann_third :: Annotation where
  "ann_third = \<lparr>ann_id = ''1730570000003'', ann_x = 0.7, ann_y = 0.8, comment = ''effusion'',
                 color = ''rgba(59, 130, 246, 1)''\<rparr>"


definition ann_left_edge :: Annotation where
  "ann_left_edge = \<lparr>ann_id = ''7'', ann_x = 0, ann_y = 0.5, comment = ''edge'',
                     color = ''rgba(59, 130, 246, 1)''\<rparr>"

definition response_of :: "string \<Rightarrow> real \<Rightarrow> AIResponse" where
  "response_of m s =
     \<lparr>model_id = Some m, results_response = Some \<lparr>score = Some s, model = Some m\<rparr>\<rparr>"

definition pneumothorax_response :: "real \<Rightarrow> AIResponse" where
  "pneumothorax_response s = response_of ''mc_chestradiography_pneumothorax:v1.20250828'' s"

definition normal_response :: "real \<Rightarrow> AIResponse" where
  "normal_response s = response_of ''mc_chestradiography_normal:v1.20250828'' s"

definition unprefixed_response :: "real \<Rightarrow> AIResponse" where
  "unprefixed_response s = response_of ''mc_pneumothorax:v1.20250828'' s"

definition apical_templates :: "RegionTemplate list" where
  "apical_templates =
     [\<lparr>tpl_x = 0.25, tpl_y = 0.25, tpl_radius = 0.15, tpl_description = ''Left apical region''\<rparr>,
      \<lparr>tpl_x = 0.75, tpl_y = 0.25, tpl_radius = 0.15, tpl_description = ''Right apical region''\<rparr>]"

definition bare_info :: "PathologyInfo js_property" where
  "bare_info = Own \<lparr>fullName = ''Nodule'', description = ''Rounded opacity.'',
                     secondaryFindings = None\<rparr>"

definition two_templates :: "RegionTemplate list" where
  "two_templates =
     [\<lparr>tpl_x = 0.3, tpl_y = 0.3, tpl_radius = 0.1, tpl_description = ''Left''\<rparr>,
      \<lparr>tpl_x = 0.7, tpl_y = 0.3, tpl_radius = 0.1, tpl_description = ''Right''\<rparr>]"

section \<open>Properties of the consensus detector\<close>

lemma sqrt_less_iff_sq:
  fixes s r :: real
  assumes "0 \<le> s"
  shows "sqrt s < r \<longleftrightarrow> 0 < r \<and> s < r\<^sup>2"
proof
  assume h: "sqrt s < r"
  have "0 \<le> sqrt s" using assms by simp
  with h have r: "0 < r" by linarith
  have "sqrt s < sqrt (r\<^sup>2)" using h r by simp
  then have "s < r\<^sup>2" by (simp only: real_sqrt_less_iff)
  with r show "0 < r \<and> s < r\<^sup>2" by simp
next
  assume "0 < r \<and> s < r\<^sup>2"
  then have r: "0 < r" and "s < r\<^sup>2" by simp_all
  then have "sqrt s < sqrt (r\<^sup>2)" by (simp only: real_sqrt_less_iff)
  with r show "sqrt s < r" by simp
qed

lemma inside_iff:
  "distance px py region < radius region \<longleftrightarrow>
     0 < radius region \<and>
     (px - reg_x region)\<^sup>2 + (py - reg_y region)\<^sup>2 < (radius region)\<^sup>2"
  unfolding distance_def Let_def
  by (subst sqrt_less_iff_sq) (simp_all add: power2_eq_square)

lemma foldl_consensus_step:
  "foldl (consensus_step a) acc rs = acc @ foldl (consensus_step a) [] rs"
proof (induction rs arbitrary: acc)
  case Nil
  show ?case by simp
next
  case (Cons r rs)
  have "foldl (consensus_step a) acc (r # rs) = foldl (consensus_step a) (consensus_step a acc r) rs"
    by simp
  also have "\<dots> = consensus_step a acc r @ foldl (consensus_step a) [] rs"
    by (rule Cons.IH)
  also have "\<dots> = acc @ consensus_step a [] r @ foldl (consensus_step a) [] rs"
    by (simp add: consensus_step_def)
  also have "\<dots> = acc @ foldl (consensus_step a) (consensus_step a [] r) rs"
    by (simp add: Cons.IH [of "consensus_step a [] r"])
  finally show ?case by simp
qed

lemma set_inner_loop:
  "set (foldl (consensus_step a) [] rs) =
     {\<lparr>con_x = ann_x a, con_y = ann_y a, con_radius = radius r * 0.8,
        clinicianAnnotation = a, aiRegion = r\<rparr> | r.
        r \<in> set rs \<and> distance (ann_x a) (ann_y a) r < radius r}"
proof (induction rs)
  case Nil
  show ?case by simp
next
  case (Cons r rs)
  have "foldl (consensus_step a) [] (r # rs) =
          consensus_step a [] r @ foldl (consensus_step a) [] rs"
    using foldl_consensus_step [of a "consensus_step a [] r" rs] by simp
  then have split: "set (foldl (consensus_step a) [] (r # rs)) =
          set (consensus_step a [] r) \<union> set (foldl (consensus_step a) [] rs)"
    by simp
  have head: "set (consensus_step a [] r) =
          (if distance (ann_x a) (ann_y a) r < radius r
           then {\<lparr>con_x = ann_x a, con_y = ann_y a, con_radius = radius r * 0.8,
                  clinicianAnnotation = a, aiRegion = r\<rparr>}
           else {})"
    by (simp add: consensus_step_def)
  show ?case unfolding split head Cons.IH by auto
qed

lemma foldl_outer_loop:
  "foldl (\<lambda>detected a. foldl (consensus_step a) detected rs) acc as =
     acc @ concat (map (\<lambda>a. foldl (consensus_step a) [] rs) as)"
proof (induction as arbitrary: acc)
  case Nil
  show ?case by simp
next
  case (Cons a as)
  show ?case
    by (simp add: Cons.IH foldl_consensus_step [of a acc rs])
qed

lemma set_detectConsensus:
  "set (detectConsensus as rs) =
     {\<lparr>con_x = ann_x a, con_y = ann_y a, con_radius = radius r * 0.8,
        clinicianAnnotation = a, aiRegion = r\<rparr> | a r.
        a \<in> set as \<and> r \<in> set rs \<and> distance (ann_x a) (ann_y a) r < radius r}"
  unfolding detectConsensus_def foldl_outer_loop
  by (auto simp: set_inner_loop)







text \<open>
  C8. Every consensus region in the output of \<open>detectConsensus\<close> is centred on its
  clinician annotation's point and has radius \<open>0.8\<close> times the radius of its AI region.
\<close>

theorem detectConsensus_geometry:
  "c \<in> set (detectConsensus as rs) \<Longrightarrow>
     con_x c = ann_x (clinicianAnnotation c) \<and> con_y c = ann_y (clinicianAnnotation c) \<and>
     con_radius c = 0.8 * radius (aiRegion c)"
  unfolding set_detectConsensus by auto

lemma detect_demo:
  "detectConsensus [ann_centre, ann_edge] [reg_demo] =
     [\<lparr>con_x = 0.5, con_y = 0.5, con_radius = 0.16,
       clinicianAnnotation = ann_centre, aiRegion = reg_demo\<rparr>]"
proof -
  have c: "distance (ann_x ann_centre) (ann_y ann_centre) reg_demo < radius reg_demo"
    unfolding inside_iff by (simp add: ann_centre_def reg_demo_def power2_eq_square)
  have e: "\<not> distance (ann_x ann_edge) (ann_y ann_edge) reg_demo < radius reg_demo"
    unfolding inside_iff by (simp add: ann_edge_def reg_demo_def power2_eq_square)
  show ?thesis
    unfolding detectConsensus_def
    by (simp add: consensus_step_def c e) (simp add: ann_centre_def reg_demo_def)
qed

theorem detectConsensus_geometry_witness:
  "hd (detectConsensus [ann_centre, ann_edge] [reg_demo]) \<in> set (detectConsensus [ann_centre, ann_edge] [reg_demo]) \<and>
   con_x (hd (detectConsensus [ann_centre, ann_edge] [reg_demo])) = 0.5 \<and>
   con_y (hd (detectConsensus [ann_centre, ann_edge] [reg_demo])) = 0.5 \<and>
   con_radius (hd (detectConsensus [ann_centre, ann_edge] [reg_demo])) = 0.16"
proof -
  have m: "hd (detectConsensus [ann_centre, ann_edge] [reg_demo]) \<in> set (detectConsensus [ann_centre, ann_edge] [reg_demo])"
    by (simp add: detect_demo)
  show ?thesis
    using m detectConsensus_geometry [OF m]
    unfolding detect_demo
    by (simp add: ann_centre_def reg_demo_def)
qed

section \<open>Properties of the hover pick\<close>



section \<open>Properties of deleting an annotation\<close>

text \<open>
  C10. Deleting by id keeps the remaining annotations in their original relative order
  (the result is a subsequence of the list), removes every annotation whose id is the
  given one, and keeps every other annotation unchanged, as often as it occurred.
\<close>

theorem handleDeleteAnnotation_frame:
  "subseq (handleDeleteAnnotation i as) as \<and>
   (\<forall>a. count (mset (handleDeleteAnnotation i as)) a =
        (if ann_id a = i then 0 else count (mset as) a))"
proof
  show "subseq (handleDeleteAnnotation i as) as"
    unfolding handleDeleteAnnotation_def by (rule subseq_filter_left)
next
  show "\<forall>a. count (mset (handleDeleteAnnotation i as)) a =
        (if ann_id a = i then 0 else count (mset as) a)"
  proof
    fix a
    show "count (mset (handleDeleteAnnotation i as)) a =
        (if ann_id a = i then 0 else count (mset as) a)"
      unfolding handleDeleteAnnotation_def
    proof (induction as)
      case Nil
      show ?case by simp
    next
      case (Cons b bs)
      then show ?case by (cases "ann_id b = i") auto
    qed
  qed
qed

theorem handleDeleteAnnotation_frame_witness:
  "subseq (handleDeleteAnnotation ''1730570000002'' [ann_first, ann_second, ann_third])
     [ann_first, ann_second, ann_third] \<and>
   count (mset (handleDeleteAnnotation ''1730570000002'' [ann_first, ann_second, ann_third]))
     ann_second = 0 \<and>
   count (mset (handleDeleteAnnotation ''1730570000002'' [ann_first, ann_second, ann_third]))
     ann_first = 1 \<and>
   count (mset (handleDeleteAnnotation ''1730570000002'' [ann_first, ann_second, ann_third]))
     ann_third = 1"
  using handleDeleteAnnotation_frame [of "''1730570000002''" "[ann_first, ann_second, ann_third]"]
  by (simp add: ann_first_def ann_second_def ann_third_def)

section \<open>Properties of the region synthesizer\<close>

lemma response_of_score [simp]: "response_score (response_of m s) = s"
  by (simp add: response_of_def response_score_def)

lemma response_of_modelId [simp]: "m \<noteq> [] \<Longrightarrow> response_modelId (response_of m s) = m"
  by (simp add: response_of_def response_modelId_def)

lemma match_pneumothorax:
  "pathologyMatch ''mc_chestradiography_pneumothorax:v1.20250828'' = Some ''pneumothorax''"
  by code_simp

lemma match_normal:
  "pathologyMatch ''mc_chestradiography_normal:v1.20250828'' = Some ''normal''"
  by code_simp

lemma match_other:
  "pathologyMatch ''mc_pneumothorax:v1.20250828'' = None"
  by code_simp

lemma lower_pneumothorax: "toLowerCase ''pneumothorax'' = ''pneumothorax''"
  by code_simp

lemma lower_normal: "toLowerCase ''normal'' = ''normal''"
  by code_simp

lemma key_pneumothorax:
  "pathologyKey (response_of ''mc_chestradiography_pneumothorax:v1.20250828'' s) = ''pneumothorax''"
  by (simp del: pathologyMatch.simps add: pathologyKey_def match_pneumothorax lower_pneumothorax)

lemma key_normal:
  "pathologyKey (response_of ''mc_chestradiography_normal:v1.20250828'' s) = ''normal''"
  by (simp del: pathologyMatch.simps add: pathologyKey_def match_normal lower_normal)

lemma key_other:
  "pathologyKey (response_of ''mc_pneumothorax:v1.20250828'' s) = ''lung_opacity''"
  by (simp del: pathologyMatch.simps add: pathologyKey_def match_other)

lemma regions_normal:
  "pathologyKey r = ''normal'' \<Longrightarrow> anatomicalRegions r = Own []"
  by (simp add: anatomicalRegions_def lookup_def PATHOLOGY_REGIONS_def)

lemma regions_pneumothorax:
  "pathologyKey r = ''pneumothorax'' \<Longrightarrow> anatomicalRegions r = Own apical_templates"
  by (simp add: anatomicalRegions_def lookup_def PATHOLOGY_REGIONS_def apical_templates_def)

lemma length_apical_templates: "length apical_templates = 2"
  by (simp add: apical_templates_def)

lemma apical_templates_nonempty: "apical_templates \<noteq> []"
  by (simp add: apical_templates_def)

lemma regions_lung_opacity:
  "pathologyKey r = ''lung_opacity'' \<Longrightarrow>
     anatomicalRegions r =
       Own [\<lparr>tpl_x = 0.35, tpl_y = 0.45, tpl_radius = 0.20, tpl_description = ''Left lung field''\<rparr>,
            \<lparr>tpl_x = 0.65, tpl_y = 0.45, tpl_radius = 0.20, tpl_description = ''Right lung field''\<rparr>]"
  by (simp add: anatomicalRegions_def lookup_def PATHOLOGY_REGIONS_def)

lemma info_normal:
  "pathologyKey r = ''normal'' \<Longrightarrow>
     field fullName (pathologyInfo r) = Some ''Normal'' \<and>
     field secondaryFindings (pathologyInfo r) = Some (Some [])"
  by (simp add: pathologyInfo_def lookup_def PATHOLOGY_INFO_def)

lemma info_pneumothorax:
  "pathologyKey r = ''pneumothorax'' \<Longrightarrow>
     field fullName (pathologyInfo r) = Some ''Pneumothorax'' \<and>
     firstSecondaryFinding (pathologyInfo r) =
       Some ''Lung edge visualization suggests partial lung collapse.''"
  by (simp add: pathologyInfo_def lookup_def PATHOLOGY_INFO_def firstSecondaryFinding_def)

lemma info_lung_opacity:
  "pathologyKey r = ''lung_opacity'' \<Longrightarrow>
     field fullName (pathologyInfo r) = Some ''Lung Opacity'' \<and>
     firstSecondaryFinding (pathologyInfo r) =
       Some ''Air bronchograms may be present, suggesting alveolar filling process.''"
  by (simp add: pathologyInfo_def lookup_def PATHOLOGY_INFO_def firstSecondaryFinding_def)

lemma synthesize_low: "sc < 0.3 \<Longrightarrow> synthesize sc info templates = Inr []"
  by (simp add: synthesize_def)

lemma synthesize_empty: "synthesize sc info (Own []) = Inr []"
  by (simp add: synthesize_def)

lemma synthesize_two:
  assumes "0.6 < sc" and "1 < length ts"
  shows "\<exists>p s. synthesize sc info (Own ts) = Inr [p, s] \<and>
           intensity p = sc \<and> intensity s = 0.85 * sc \<and>
           label p = field fullName info \<and>
           label s = (if truthy (firstSecondaryFinding info)
                      then Some ''Secondary Finding'' else label p) \<and>
           reg_x p = tpl_x (ts ! 0) \<and> reg_y p = tpl_y (ts ! 0) \<and>
           radius p = tpl_radius (ts ! 0) \<and>
           reg_x s = tpl_x (ts ! 1) \<and> reg_y s = tpl_y (ts ! 1) \<and>
           radius s = tpl_radius (ts ! 1)"
proof -
  from assms have "\<not> sc < 0.3" and "ts \<noteq> []" by auto
  with assms show ?thesis
    by (simp add: synthesize_def Let_def)
qed

lemma synthesize_one:
  assumes "0.3 \<le> sc" and "sc \<le> 0.6 \<or> length ts = 1" and "ts \<noteq> []"
  shows "\<exists>p. synthesize sc info (Own ts) = Inr [p] \<and> intensity p = sc \<and>
           label p = field fullName info"
proof -
  from assms have "\<not> sc < 0.3" and "\<not> (0.6 < sc \<and> 1 < length ts)" by auto
  with assms show ?thesis
    by (simp add: synthesize_def Let_def)
qed

lemma fixed_low: "response_score r < 0.3 \<Longrightarrow> generateRegionsFromAIResponse2 r = []"
  by (simp add: generateRegionsFromAIResponse2_def Let_def)

lemma fixed_one:
  assumes "0.3 \<le> response_score r"
    and "response_score r \<le> 0.7 \<or> \<not> truthy_list (field secondaryFindings (pathologyInfo r))"
  shows "\<exists>p. generateRegionsFromAIResponse2 r = [p] \<and> intensity p = response_score r \<and>
           label p = field fullName (pathologyInfo r)"
proof -
  from assms have "\<not> response_score r < 0.3" by simp
  with assms show ?thesis
    by (auto simp: generateRegionsFromAIResponse2_def Let_def truthy_list_def
             split: option.splits)
qed



lemma pneumothorax_response_score: "response_score (pneumothorax_response s) = s"
  by (simp add: pneumothorax_response_def)

lemma pneumothorax_response_key: "pathologyKey (pneumothorax_response s) = ''pneumothorax''"
  by (simp add: pneumothorax_response_def key_pneumothorax)

lemma normal_response_score: "response_score (normal_response s) = s"
  by (simp add: normal_response_def)

lemma normal_response_key: "pathologyKey (normal_response s) = ''normal''"
  by (simp add: normal_response_def key_normal)

lemma unprefixed_response_score: "response_score (unprefixed_response s) = s"
  by (simp add: unprefixed_response_def)

lemma unprefixed_response_key: "pathologyKey (unprefixed_response s) = ''lung_opacity''"
  by (simp add: unprefixed_response_def key_other)

lemma generate_unfold:
  "anatomicalRegions r = Own ts \<Longrightarrow>
     generateRegionsFromAIResponse r = synthesize (response_score r) (pathologyInfo r) (Own ts)"
  by (simp add: generateRegionsFromAIResponse_def)


lemma pathologyKey_lower_case:
  "\<forall>c \<in> set (pathologyKey r). (97 \<le> (of_char c :: nat) \<and> (of_char c :: nat) \<le> 122) \<or> (of_char c :: nat) = 95"
proof -
  have here: "\<And>s g. match_here s = Some g \<Longrightarrow> \<forall>c \<in> set g. key_char c"
    by (auto simp: match_here_def Let_def split: option.splits if_splits dest: set_takeWhileD)
  have m: "\<And>s g. pathologyMatch s = Some g \<Longrightarrow> \<forall>c \<in> set g. key_char c"
  proof -
    fix s g show "pathologyMatch s = Some g \<Longrightarrow> \<forall>c \<in> set g. key_char c"
      by (induction s) (auto split: option.splits dest: here)
  qed
  have low: "\<And>c. key_char c \<Longrightarrow>
      (97 \<le> (of_char (toLowerCase_char c) :: nat) \<and> (of_char (toLowerCase_char c) :: nat) \<le> 122)
        \<or> (of_char (toLowerCase_char c) :: nat) = 95"
    by (auto simp: key_char_def toLowerCase_char_def Let_def)
  have opac: "\<forall>c \<in> set ''lung_opacity''. (97 \<le> (of_char c :: nat) \<and> (of_char c :: nat) \<le> 122) \<or> (of_char c :: nat) = 95"
    by simp
  show ?thesis
  proof (cases "pathologyMatch (response_modelId r)")
    case None
    then show ?thesis using opac by (simp add: pathologyKey_def)
  next
    case (Some g)
    then show ?thesis using m [OF Some] low
      by (auto simp: pathologyKey_def toLowerCase_def)
  qed
qed




text \<open>
  C3, as the two copies of the Demo have it. For a response whose pathology key is
  \<open>normal\<close>: the synthesizer with the template table returns no region at any score;
  the synthesizer without the table returns no region below \<open>0.3\<close> and exactly one region,
  labelled \<open>Normal\<close>, from \<open>0.3\<close> on.
\<close>

theorem normal_key_regions:
  "pathologyKey r = ''normal'' \<Longrightarrow>
     generateRegionsFromAIResponse r = Inr [] \<and>
     (response_score r < 0.3 \<longrightarrow> generateRegionsFromAIResponse2 r = []) \<and>
     (0.3 \<le> response_score r \<longrightarrow>
        (\<exists>p. generateRegionsFromAIResponse2 r = [p] \<and> label p = Some ''Normal''))"
proof -
  assume k: "pathologyKey r = ''normal''"
  have one: "generateRegionsFromAIResponse r = Inr []"
    unfolding generateRegionsFromAIResponse_def regions_normal [OF k]
    by (cases "response_score r < 0.3") (simp_all add: synthesize_low synthesize_empty)
  have nt: "\<not> truthy_list (field secondaryFindings (pathologyInfo r))"
    using info_normal [OF k] by (simp add: truthy_list_def)
  have three: "0.3 \<le> response_score r \<longrightarrow>
        (\<exists>p. generateRegionsFromAIResponse2 r = [p] \<and> label p = Some ''Normal'')"
  proof
    assume a: "0.3 \<le> response_score r"
    from nt have b: "response_score r \<le> 0.7 \<or> \<not> truthy_list (field secondaryFindings (pathologyInfo r))"
      by simp
    from fixed_one [OF a b] info_normal [OF k]
    show "\<exists>p. generateRegionsFromAIResponse2 r = [p] \<and> label p = Some ''Normal''"
      by auto
  qed
  from one three show ?thesis by (simp add: fixed_low)
qed

theorem normal_key_regions_witness:
  "pathologyKey (normal_response 0.95) = ''normal'' \<and>
   generateRegionsFromAIResponse (normal_response 0.95) = Inr [] \<and>
   (\<exists>p. generateRegionsFromAIResponse2 (normal_response 0.95) = [p] \<and>
      label p = Some ''Normal'') \<and>
   generateRegionsFromAIResponse (normal_response 0.1) = Inr [] \<and>
   generateRegionsFromAIResponse2 (normal_response 0.1) = []"
  using normal_key_regions [OF normal_response_key, of "0.95"]
    normal_key_regions [OF normal_response_key, of "0.1"]
  by (simp add: normal_response_score normal_response_key)

theorem normal_key_regions_counterexample:
  "pathologyKey (normal_response 0.9) = ''normal'' \<and>
   length (generateRegionsFromAIResponse2 (normal_response 0.9)) = 1"
proof -
  have "\<not> truthy_list (field secondaryFindings (pathologyInfo (normal_response 0.9)))"
    using info_normal [OF normal_response_key, of "0.9"] by (simp add: truthy_list_def)
  then have "length (generateRegionsFromAIResponse2 (normal_response 0.9)) = 1"
    by (simp add: generateRegionsFromAIResponse2_def Let_def normal_response_score)
  then show ?thesis by (simp add: normal_response_key)
qed

text \<open>
  C4, as the code has it. A score strictly below \<open>0.3\<close> gives no region in either
  synthesizer. From \<open>0.3\<close> on, the synthesizer without the template table gives at least
  one region; the synthesizer with the table gives at least one region when the template
  list read for the key is non-empty, and none when it is empty (the key \<open>normal\<close>).
\<close>

theorem minimum_threshold:
  "(response_score r < 0.3 \<longrightarrow>
      generateRegionsFromAIResponse r = Inr [] \<and> generateRegionsFromAIResponse2 r = []) \<and>
   (0.3 \<le> response_score r \<longrightarrow>
      generateRegionsFromAIResponse2 r \<noteq> [] \<and>
      (\<forall>ts. anatomicalRegions r = Own ts \<and> ts \<noteq> [] \<longrightarrow>
         (\<exists>p ps. generateRegionsFromAIResponse r = Inr (p # ps))) \<and>
      (anatomicalRegions r = Own [] \<longrightarrow> generateRegionsFromAIResponse r = Inr []))"
proof (intro conjI impI allI)
  assume "response_score r < 0.3"
  then show "generateRegionsFromAIResponse r = Inr []"
    by (simp add: generateRegionsFromAIResponse_def synthesize_low)
next
  assume "response_score r < 0.3"
  then show "generateRegionsFromAIResponse2 r = []" by (rule fixed_low)
next
  assume "0.3 \<le> response_score r"
  then show "generateRegionsFromAIResponse2 r \<noteq> []"
    by (simp add: generateRegionsFromAIResponse2_def Let_def)
next
  fix ts
  assume a: "0.3 \<le> response_score r" and h: "anatomicalRegions r = Own ts \<and> ts \<noteq> []"
  then have ne: "ts \<noteq> []" and ar: "anatomicalRegions r = Own ts" by simp_all
  show "\<exists>p ps. generateRegionsFromAIResponse r = Inr (p # ps)"
  proof (cases "0.6 < response_score r \<and> 1 < length ts")
    case True
    then have "0.6 < response_score r" and "1 < length ts" by simp_all
    from synthesize_two [OF this, of "pathologyInfo r"] show ?thesis
      unfolding generate_unfold [OF ar] by blast
  next
    case False
    with ne have b: "response_score r \<le> 0.6 \<or> length ts = 1"
      by (cases ts) auto
    from synthesize_one [OF a b ne, of "pathologyInfo r"] show ?thesis
      unfolding generate_unfold [OF ar] by blast
  qed
next
  assume "anatomicalRegions r = Own []"
  then show "generateRegionsFromAIResponse r = Inr []"
    by (simp add: generateRegionsFromAIResponse_def synthesize_empty)
qed

theorem minimum_threshold_witness:
  "generateRegionsFromAIResponse (pneumothorax_response 0.29) = Inr [] \<and>
   generateRegionsFromAIResponse2 (pneumothorax_response 0.29) = [] \<and>
   generateRegionsFromAIResponse2 (pneumothorax_response 0.3) \<noteq> [] \<and>
   (\<exists>p ps. generateRegionsFromAIResponse (pneumothorax_response 0.3) = Inr (p # ps)) \<and>
   generateRegionsFromAIResponse (normal_response 0.5) = Inr []"
  using minimum_threshold [of "pneumothorax_response 0.29"]
    minimum_threshold [of "pneumothorax_response 0.3"]
    regions_pneumothorax [OF pneumothorax_response_key, of "0.3"] apical_templates_nonempty
    minimum_threshold [of "normal_response 0.5"]
    regions_normal [OF normal_response_key, of "0.5"]
  by (simp add: pneumothorax_response_score normal_response_score)

theorem minimum_threshold_counterexample:
  "0.3 \<le> response_score (normal_response 0.3) \<and>
   generateRegionsFromAIResponse (normal_response 0.3) = Inr []"
  unfolding generate_unfold [OF regions_normal [OF normal_response_key]]
  by (simp add: normal_response_score synthesize_empty)

text \<open>
  C5, as the code has it. A response with score \<open>0.85\<close> whose pathology key is
  \<open>pneumothorax\<close> (the identifier matches \<open>chestradiography_pneumothorax\<close>, not merely
  contains the word) gives exactly two regions, labelled \<open>Pneumothorax\<close> and
  \<open>Secondary Finding\<close>. In general the second region is labelled \<open>Secondary Finding\<close> when
  the catalogue entry has a non-empty first secondary finding, and carries the primary
  label otherwise.
\<close>

theorem pneumothorax_labels:
  "(response_score r = 0.85 \<and> pathologyKey r = ''pneumothorax'' \<longrightarrow>
      (\<exists>p s. generateRegionsFromAIResponse r = Inr [p, s] \<and>
         label p = Some ''Pneumothorax'' \<and> label s = Some ''Secondary Finding'')) \<and>
   (0.6 < sc \<and> 1 < length ts \<longrightarrow>
      (\<exists>p s. synthesize sc info (Own ts) = Inr [p, s] \<and>
         label s = (if truthy (firstSecondaryFinding info)
                    then Some ''Secondary Finding'' else label p)))"
proof (intro conjI impI)
  assume h: "response_score r = 0.85 \<and> pathologyKey r = ''pneumothorax''"
  then have k: "pathologyKey r = ''pneumothorax''" and a: "0.6 < response_score r" by simp_all
  have b: "1 < length apical_templates"
    by (simp add: length_apical_templates)
  from synthesize_two [OF a b, of "pathologyInfo r"] info_pneumothorax [OF k]
  show "\<exists>p s. generateRegionsFromAIResponse r = Inr [p, s] \<and>
         label p = Some ''Pneumothorax'' \<and> label s = Some ''Secondary Finding''"
    unfolding generate_unfold [OF regions_pneumothorax [OF k]]
    by auto
next
  assume "0.6 < sc \<and> 1 < length ts"
  then have a: "0.6 < sc" and b: "1 < length ts" by simp_all
  from synthesize_two [OF a b, of info]
  show "\<exists>p s. synthesize sc info (Own ts) = Inr [p, s] \<and>
         label s = (if truthy (firstSecondaryFinding info)
                    then Some ''Secondary Finding'' else label p)"
    by blast
qed

theorem pneumothorax_labels_witness:
  "(\<exists>p s. generateRegionsFromAIResponse (pneumothorax_response 0.85) = Inr [p, s] \<and>
      label p = Some ''Pneumothorax'' \<and> label s = Some ''Secondary Finding'') \<and>
   (\<exists>p s. synthesize 0.85 bare_info (Own two_templates) = Inr [p, s] \<and>
      label p = Some ''Nodule'' \<and> label s = Some ''Nodule'')"
proof -
  have l: "1 < length two_templates" by (simp add: two_templates_def)
  have f: "\<not> truthy (firstSecondaryFinding bare_info)"
    by (simp add: bare_info_def firstSecondaryFinding_def)
  have g: "\<And>p s. synthesize 0.85 bare_info (Own two_templates) = Inr [p, s] \<Longrightarrow>
             label p = Some ''Nodule''"
    by (auto simp: synthesize_def Let_def two_templates_def bare_info_def)
  have one: "\<exists>p s. generateRegionsFromAIResponse (pneumothorax_response 0.85) = Inr [p, s] \<and>
      label p = Some ''Pneumothorax'' \<and> label s = Some ''Secondary Finding''"
    using pneumothorax_labels [of "pneumothorax_response 0.85" 0 "[]" bare_info]
    by (simp add: pneumothorax_response_score pneumothorax_response_key)
  have "\<exists>p s. synthesize 0.85 bare_info (Own two_templates) = Inr [p, s] \<and>
         label s = label p"
    using pneumothorax_labels [of "pneumothorax_response 0.85" "0.85" two_templates bare_info] l f
    by simp
  then have two: "\<exists>p s. synthesize 0.85 bare_info (Own two_templates) = Inr [p, s] \<and>
      label p = Some ''Nodule'' \<and> label s = Some ''Nodule''"
    using g by fastforce
  from one two show ?thesis by simp
qed

theorem pneumothorax_labels_counterexample:
  "response_score (unprefixed_response 0.85) = 0.85 \<and>
   response_modelId (unprefixed_response 0.85) = ''mc_'' @ ''pneumothorax'' @ '':v1.20250828'' \<and>
   generateRegionsFromAIResponse (unprefixed_response 0.85) =
     Inr [\<lparr>reg_x = 0.35, reg_y = 0.45, radius = 0.20, intensity = 0.85,
           label = Some ''Lung Opacity'',
           explanation = Some ''Abnormal opacity detected in lung parenchyma. This finding may represent consolidation, infiltrate, mass, or other pathological process requiring clinical correlation.''\<rparr>,
          \<lparr>reg_x = 0.65, reg_y = 0.45, radius = 0.20, intensity = 0.85 * 0.85,
           label = Some ''Secondary Finding'',
           explanation = Some ''Air bronchograms may be present, suggesting alveolar filling process.''\<rparr>]"
proof -
  note k = unprefixed_response_key [of "0.85"]
  have sc: "response_score (unprefixed_response 0.85) = 0.85"
    by (simp add: unprefixed_response_score)
  have m: "response_modelId (unprefixed_response 0.85) = ''mc_'' @ ''pneumothorax'' @ '':v1.20250828''"
    by (simp add: unprefixed_response_def)
  have i: "pathologyInfo (unprefixed_response 0.85) = lookup PATHOLOGY_INFO ''lung_opacity''"
    by (simp add: pathologyInfo_def unprefixed_response_key lookup_def PATHOLOGY_INFO_def)
  have g: "generateRegionsFromAIResponse (unprefixed_response 0.85) =
     Inr [\<lparr>reg_x = 0.35, reg_y = 0.45, radius = 0.20, intensity = 0.85,
           label = Some ''Lung Opacity'',
           explanation = Some ''Abnormal opacity detected in lung parenchyma. This finding may represent consolidation, infiltrate, mass, or other pathological process requiring clinical correlation.''\<rparr>,
          \<lparr>reg_x = 0.65, reg_y = 0.45, radius = 0.20, intensity = 0.85 * 0.85,
           label = Some ''Secondary Finding'',
           explanation = Some ''Air bronchograms may be present, suggesting alveolar filling process.''\<rparr>]"
    unfolding generate_unfold [OF regions_lung_opacity [OF k]] i
    by (simp add: unprefixed_response_score synthesize_def Let_def lookup_def
          PATHOLOGY_INFO_def firstSecondaryFinding_def)
  from sc m g show ?thesis by simp
qed


section \<open>Properties of the renderers\<close>











lemma skip_zero_markers:
  "concat (map (\<lambda>(index, a). drawSingleAnnotation a W H (Suc index)) ias) =
     concat (map (\<lambda>(index, a). marker a (ann_x a * W) (ann_y a * H) (Suc index))
               (filter (\<lambda>(index, a). ann_x a \<noteq> 0 \<and> ann_y a \<noteq> 0) ias))"
proof (induction ias)
  case Nil
  show ?case by simp
next
  case (Cons ia ias)
  obtain index a where ia: "ia = (index, a)" by (cases ia)
  show ?case
  proof (cases "ann_x a = 0 \<or> ann_y a = 0")
    case True
    then have "drawSingleAnnotation a W H (Suc index) = []"
      by (simp add: drawSingleAnnotation_def)
    with True show ?thesis using Cons.IH by (auto simp: ia)
  next
    case False
    then have "drawSingleAnnotation a W H (Suc index) =
        marker a (ann_x a * W) (ann_y a * H) (Suc index)"
      by (simp add: drawSingleAnnotation_def)
    with False show ?thesis using Cons.IH by (simp add: ia)
  qed
qed

text \<open>
  C9. \<open>drawSingleAnnotation\<close> draws nothing exactly when the annotation's \<open>x\<close> or \<open>y\<close>
  is \<open>0\<close>. A redraw therefore clears the canvas and draws the markers of the annotations
  with both coordinates other than \<open>0\<close> only, each under the number of its position in
  the whole list.
\<close>

theorem drawSingleAnnotation_skips_zero:
  "(drawSingleAnnotation a W H n = [] \<longleftrightarrow> ann_x a = 0 \<or> ann_y a = 0) \<and>
   drawAnnotations W H annotations =
     ClearRect 0 0 W H #
     concat (map (\<lambda>(index, a). marker a (ann_x a * W) (ann_y a * H) (index + 1))
               (filter (\<lambda>(index, a). ann_x a \<noteq> 0 \<and> ann_y a \<noteq> 0)
                  (enumerate 0 annotations)))"
proof
  show "drawSingleAnnotation a W H n = [] \<longleftrightarrow> ann_x a = 0 \<or> ann_y a = 0"
    by (simp add: drawSingleAnnotation_def marker_def)
next
  show "drawAnnotations W H annotations =
     ClearRect 0 0 W H #
     concat (map (\<lambda>(index, a). marker a (ann_x a * W) (ann_y a * H) (index + 1))
               (filter (\<lambda>(index, a). ann_x a \<noteq> 0 \<and> ann_y a \<noteq> 0)
                  (enumerate 0 annotations)))"
    unfolding drawAnnotations_def by (simp add: skip_zero_markers)
qed

theorem drawSingleAnnotation_skips_zero_witness:
  "ann_x ann_left_edge = 0 \<and> drawSingleAnnotation ann_left_edge 800 600 1 = [] \<and>
   drawAnnotations 800 600 [ann_left_edge, ann_second] =
     ClearRect 0 0 800 600 # marker ann_second 480 240 2"
  using drawSingleAnnotation_skips_zero [of ann_left_edge 800 600 1 "[ann_left_edge, ann_second]"]
  by (simp add: ann_left_edge_def ann_second_def numeral_2_eq_2)


end
